theory Spec2Isabelle
  imports Complex_Main "HOL-Library.Log_Nat"
begin

section \<open>Binary64 arithmetic\<close>

text \<open>
  \<^verbatim>\<open>Mod\<close> and the angle wraps of \<^verbatim>\<open>rm/common/common.hpp\<close> compute on \<^verbatim>\<open>double\<close>
  (the wraps call \<^verbatim>\<open>Mod\<close> with \<^verbatim>\<open>2*M_PI\<close>, a \<^verbatim>\<open>double\<close>, so \<^verbatim>\<open>T = double\<close>). A
  \<^verbatim>\<open>double\<close> is an IEEE-754 binary64 number: a finite value (a rational of the form
  \<open>n * 2^e\<close>), an infinity, or a NaN. Every arithmetic operation returns the exact
  result rounded to the nearest representable value, ties to the even significand, each
  operation rounded on its own (no extended precision, no fused multiply-add): this is
  the arithmetic the comments of \<^verbatim>\<open>Mod\<close> assume
  (\<^verbatim>\<open>Mod(-1e-16, 360.): m= 360.\<close>, \<^verbatim>\<open>Mod(106.81415022205296, 2*M_PI): m= -1.421e-14\<close>).

  The two zeros are identified. No result of \<^verbatim>\<open>Mod\<close> depends on the sign of a zero:
  comparisons do not see it, and the only division of \<^verbatim>\<open>Mod\<close> has a divisor that is
  not zero. \<open>fdiv\<close> gives division by zero the results of division by \<open>+0\<close>.
\<close>

datatype double = Fin rat | PInf | NInf | NaN

definition pow2 :: "int \<Rightarrow> rat" where
  "pow2 e = (if 0 \<le> e then 2 ^ nat e else 1 / 2 ^ nat (- e))"

text \<open>The binary exponent of a positive rational: the \<open>e\<close> with \<open>2^e \<le> r < 2^(e+1)\<close>.\<close>

definition ilog2 :: "rat \<Rightarrow> int" where
  "ilog2 r = (if 1 \<le> r then bitlen \<lfloor>r\<rfloor> - 1 else - bitlen (\<lceil>1 / r\<rceil> - 1))"

text \<open>The nearest integer, a tie going to the even one.\<close>

definition round_half_even :: "rat \<Rightarrow> int" where
  "round_half_even t =
     (let f = \<lfloor>t\<rfloor>; d = t - of_int f
      in if d < 1 / 2 then f
         else if 1 / 2 < d then f + 1
         else if even f then f else f + 1)"

text \<open>
  Rounding an exact result to binary64: 53 significant bits, the least exponent of a
  normal number is \<open>-1022\<close> (below it the spacing stays \<open>2^-1074\<close>: subnormals), and a
  rounded value whose exponent is \<open>1024\<close> or more (a magnitude of \<open>2^1024\<close> or more)
  overflows to an infinity.
\<close>

definition round_double :: "rat \<Rightarrow> double" where
  "round_double r =
     (if r = 0 then Fin 0
      else
        let e = max (ilog2 \<bar>r\<bar>) (- 1022);
            q = pow2 (e - 52);
            v = of_int (round_half_even (r / q)) * q
        in if 1024 \<le> ilog2 \<bar>v\<bar> then (if 0 < r then PInf else NInf) else Fin v)"

fun fneg :: "double \<Rightarrow> double" where
  "fneg (Fin a) = Fin (- a)"
| "fneg PInf = NInf"
| "fneg NInf = PInf"
| "fneg NaN = NaN"

fun fadd :: "double \<Rightarrow> double \<Rightarrow> double" where
  "fadd NaN _ = NaN"
| "fadd _ NaN = NaN"
| "fadd (Fin a) (Fin b) = round_double (a + b)"
| "fadd PInf NInf = NaN"
| "fadd NInf PInf = NaN"
| "fadd PInf _ = PInf"
| "fadd NInf _ = NInf"
| "fadd (Fin a) b = b"

definition fsub :: "double \<Rightarrow> double \<Rightarrow> double" where
  "fsub a b = fadd a (fneg b)"

fun fmul :: "double \<Rightarrow> double \<Rightarrow> double" where
  "fmul NaN _ = NaN"
| "fmul _ NaN = NaN"
| "fmul (Fin a) (Fin b) = round_double (a * b)"
| "fmul (Fin a) PInf = (if a = 0 then NaN else if 0 < a then PInf else NInf)"
| "fmul (Fin a) NInf = (if a = 0 then NaN else if 0 < a then NInf else PInf)"
| "fmul PInf (Fin b) = (if b = 0 then NaN else if 0 < b then PInf else NInf)"
| "fmul NInf (Fin b) = (if b = 0 then NaN else if 0 < b then NInf else PInf)"
| "fmul PInf PInf = PInf"
| "fmul PInf NInf = NInf"
| "fmul NInf PInf = NInf"
| "fmul NInf NInf = PInf"

fun fdiv :: "double \<Rightarrow> double \<Rightarrow> double" where
  "fdiv NaN _ = NaN"
| "fdiv _ NaN = NaN"
| "fdiv (Fin a) (Fin b) =
     (if b = 0 then (if a = 0 then NaN else if 0 < a then PInf else NInf)
      else round_double (a / b))"
| "fdiv (Fin a) _ = Fin 0"
| "fdiv PInf (Fin b) = (if 0 \<le> b then PInf else NInf)"
| "fdiv NInf (Fin b) = (if 0 \<le> b then NInf else PInf)"
| "fdiv _ _ = NaN"

text \<open>\<^verbatim>\<open>floor\<close>: the floor of a binary64 number is a binary64 number, so nothing is rounded.\<close>

fun ffloor :: "double \<Rightarrow> double" where
  "ffloor (Fin a) = Fin (of_int \<lfloor>a\<rfloor>)"
| "ffloor d = d"

text \<open>Comparisons: every comparison with a NaN is false.\<close>

fun flt :: "double \<Rightarrow> double \<Rightarrow> bool" where
  "flt NaN _ = False"
| "flt _ NaN = False"
| "flt (Fin a) (Fin b) = (a < b)"
| "flt _ NInf = False"
| "flt PInf _ = False"
| "flt _ _ = True"

fun feq :: "double \<Rightarrow> double \<Rightarrow> bool" where
  "feq NaN _ = False"
| "feq _ NaN = False"
| "feq a b = (a = b)"

definition fle :: "double \<Rightarrow> double \<Rightarrow> bool" where
  "fle a b = (flt a b \<or> feq a b)"

definition fgt :: "double \<Rightarrow> double \<Rightarrow> bool" where
  "fgt a b = flt b a"

definition fge :: "double \<Rightarrow> double \<Rightarrow> bool" where
  "fge a b = fle b a"

section \<open>The angle-wrap utility (\<^verbatim>\<open>rm/common/common.hpp\<close>)\<close>

text \<open>
  \<^verbatim>\<open>Mod(x, y)\<close>, branch for branch. \<open>Mod_m\<close> is the local
  \<^verbatim>\<open>double m= x - y * floor(x/y)\<close>; \<^verbatim>\<open>return 0\<close> returns the \<^verbatim>\<open>double\<close> zero.
\<close>

definition Mod_m :: "double \<Rightarrow> double \<Rightarrow> double" where
  "Mod_m x y = fsub x (fmul y (ffloor (fdiv x y)))"

definition Mod :: "double \<Rightarrow> double \<Rightarrow> double" where
  "Mod x y =
     (if feq y (Fin 0) then x
      else
        let m = Mod_m x y
        in if fgt y (Fin 0) then
             (if fge m y then Fin 0
              else if flt m (Fin 0) then
                (if feq (fadd y m) y then Fin 0 else fadd y m)
              else m)
           else
             (if fle m y then Fin 0
              else if fgt m (Fin 0) then
                (if feq (fadd y m) y then Fin 0 else fadd y m)
              else m))"

text \<open>
  \<^verbatim>\<open>M_PI\<close> is the macro of \<^verbatim>\<open><cmath>\<close>, the literal \<^verbatim>\<open>3.14159265358979323846\<close>; a
  decimal literal denotes the binary64 number nearest to it.
\<close>

definition M_PI :: double where
  "M_PI = round_double (314159265358979323846 / 10 ^ 20)"

definition wrapAngle :: "double \<Rightarrow> double \<Rightarrow> double \<Rightarrow> double" where
  "wrapAngle angle x1 x2 = fadd (Mod (fsub angle x1) (fsub x2 x1)) x1"

definition wrapPosNegPI :: "double \<Rightarrow> double" where
  "wrapPosNegPI angle = fsub (Mod (fadd angle M_PI) (fmul (Fin 2) M_PI)) M_PI"

definition wrapTwoPI :: "double \<Rightarrow> double" where
  "wrapTwoPI angle = Mod angle (fmul (Fin 2) M_PI)"

text \<open>Membership of the half-open intervals \<open>[lo, hi)\<close> and \<open>(lo, hi]\<close>, as \<^verbatim>\<open>double\<close> comparisons.\<close>

definition in_co :: "double \<Rightarrow> double \<Rightarrow> double \<Rightarrow> bool" where
  "in_co lo hi d = (fle lo d \<and> flt d hi)"

definition in_oc :: "double \<Rightarrow> double \<Rightarrow> double \<Rightarrow> bool" where
  "in_oc lo hi d = (flt lo d \<and> fle d hi)"

section \<open>Quaternions (\<^verbatim>\<open>rm/quaternions/QuaternionEigen.hpp\<close>)\<close>

text \<open>
  \<^verbatim>\<open>Eigen::Quaternion<PrimType>\<close>, the \<^verbatim>\<open>Implementation\<close> type: four coefficients of
  the scalar type \<^verbatim>\<open>PrimType\<close>, here the type variable \<open>'a\<close>.
\<close>

record 'a Implementation =
  qw :: 'a
  qx :: 'a
  qy :: 'a
  qz :: 'a

text \<open>
  \<^verbatim>\<open>Quaternion<PrimType>\<close> derives from \<^verbatim>\<open>Eigen::Quaternion<PrimType>\<close> and adds no member;
  \<^verbatim>\<open>UnitQuaternion<PrimType>\<close> owns one \<^verbatim>\<open>Quaternion<PrimType>\<close>, its member \<^verbatim>\<open>uq\<close>.
\<close>

datatype 'a Quaternion = Quaternion (toImplementation: "'a Implementation")

record 'a UnitQuaternion =
  uq :: "'a Quaternion"

definition Quaternion_coeffs :: "'a \<Rightarrow> 'a \<Rightarrow> 'a \<Rightarrow> 'a \<Rightarrow> 'a Quaternion" where
  "Quaternion_coeffs w x y z = Quaternion \<lparr>qw = w, qx = x, qy = y, qz = z\<rparr>"

definition Quaternion_w :: "'a Quaternion \<Rightarrow> 'a" where
  "Quaternion_w q = qw (toImplementation q)"

definition Quaternion_x :: "'a Quaternion \<Rightarrow> 'a" where
  "Quaternion_x q = qx (toImplementation q)"

definition Quaternion_y :: "'a Quaternion \<Rightarrow> 'a" where
  "Quaternion_y q = qy (toImplementation q)"

definition Quaternion_z :: "'a Quaternion \<Rightarrow> 'a" where
  "Quaternion_z q = qz (toImplementation q)"

definition UnitQuaternion_w :: "'a UnitQuaternion \<Rightarrow> 'a" where
  "UnitQuaternion_w u = Quaternion_w (uq u)"

definition UnitQuaternion_x :: "'a UnitQuaternion \<Rightarrow> 'a" where
  "UnitQuaternion_x u = Quaternion_x (uq u)"

definition UnitQuaternion_y :: "'a UnitQuaternion \<Rightarrow> 'a" where
  "UnitQuaternion_y u = Quaternion_y (uq u)"

definition UnitQuaternion_z :: "'a UnitQuaternion \<Rightarrow> 'a" where
  "UnitQuaternion_z u = Quaternion_z (uq u)"

definition UnitQuaternion_toImplementation :: "'a UnitQuaternion \<Rightarrow> 'a Implementation" where
  "UnitQuaternion_toImplementation u = toImplementation (uq u)"

text \<open>
  The arithmetic of the coefficients is Eigen's (\<^verbatim>\<open>Base::norm()\<close>,
  \<^verbatim>\<open>Base::normalized()\<close>): a library outside the repository, so every operation that
  calls it takes it as a parameter. \<open>nrm\<close> is Eigen's \<^verbatim>\<open>norm()\<close>, read as the real
  number it returns.
\<close>

definition Quaternion_norm :: "('a Implementation \<Rightarrow> real) \<Rightarrow> 'a Quaternion \<Rightarrow> real" where
  "Quaternion_norm nrm q = nrm (toImplementation q)"

definition UnitQuaternion_norm :: "('a Implementation \<Rightarrow> real) \<Rightarrow> 'a UnitQuaternion \<Rightarrow> real" where
  "UnitQuaternion_norm nrm u = Quaternion_norm nrm (uq u)"

text \<open>
  Modelled from the spec: the Euclidean norm of the four coefficients ("\<^verbatim>\<open>norm()\<close>: returns
  the Euclidean norm of the four coefficients"), the kernel that stands for Eigen's
  \<^verbatim>\<open>norm()\<close> wherever a concrete one is needed.
\<close>

definition euclidean_norm :: "real Implementation \<Rightarrow> real" where
  "euclidean_norm i = sqrt ((qw i)\<^sup>2 + (qx i)\<^sup>2 + (qy i)\<^sup>2 + (qz i)\<^sup>2)"

datatype error = runtime_error string

text \<open>
  Modelled from the spec: the macro \<^verbatim>\<open>RM_ASSERT_SCALAR_NEAR_DBG\<close> of
  \<^verbatim>\<open>rm/common/assert_macros_eigen.hpp\<close>, a header that is not among the sources. The spec:
  "a debug-only assertion compares \<^verbatim>\<open>norm()\<close> to \<^verbatim>\<open>1\<close> within \<^verbatim>\<open>1e-6\<close>", its failure
  "fatal to the operation when checks are enabled, silently ignored when checks are
  disabled". \<open>checks\<close> says whether the checks are compiled in; the result is the
  exception thrown, if any.
\<close>

definition RM_ASSERT_SCALAR_NEAR_DBG :: "bool \<Rightarrow> real \<Rightarrow> real \<Rightarrow> real \<Rightarrow> string \<Rightarrow> error option" where
  "RM_ASSERT_SCALAR_NEAR_DBG checks a b tol msg =
     (if checks \<and> \<not> \<bar>a - b\<bar> \<le> tol then Some (runtime_error msg) else None)"

text \<open>
  The line every validating path of \<^verbatim>\<open>UnitQuaternion\<close> ends with:
  \<^verbatim>\<open>RM_ASSERT_SCALAR_NEAR_DBG(std::runtime_error, norm(), 1, 1e-6, "Input quaternion has not unit length.")\<close>.
\<close>

definition assert_unit_length :: "bool \<Rightarrow> ('a Implementation \<Rightarrow> real) \<Rightarrow> 'a UnitQuaternion \<Rightarrow> error option" where
  "assert_unit_length checks nrm this =
     RM_ASSERT_SCALAR_NEAR_DBG checks (UnitQuaternion_norm nrm this) 1 (1 / 10 ^ 6)
       ''Input quaternion has not unit length.''"

text \<open>
  The three validating constructors: from four coefficients, from a \<^verbatim>\<open>Quaternion\<close>, from
  an \<^verbatim>\<open>Implementation\<close>. Each initialises \<^verbatim>\<open>uq\<close> and then asserts; a constructor that
  throws constructs nothing.
\<close>

definition UnitQuaternion_of_coeffs ::
  "bool \<Rightarrow> ('a Implementation \<Rightarrow> real) \<Rightarrow> 'a \<Rightarrow> 'a \<Rightarrow> 'a \<Rightarrow> 'a \<Rightarrow> error + 'a UnitQuaternion" where
  "UnitQuaternion_of_coeffs checks nrm w x y z =
     (let this = \<lparr>uq = Quaternion_coeffs w x y z\<rparr>
      in case assert_unit_length checks nrm this of Some e \<Rightarrow> Inl e | None \<Rightarrow> Inr this)"

definition UnitQuaternion_of_Quaternion ::
  "bool \<Rightarrow> ('a Implementation \<Rightarrow> real) \<Rightarrow> 'a Quaternion \<Rightarrow> error + 'a UnitQuaternion" where
  "UnitQuaternion_of_Quaternion checks nrm other =
     (let this = \<lparr>uq = Quaternion (toImplementation other)\<rparr>
      in case assert_unit_length checks nrm this of Some e \<Rightarrow> Inl e | None \<Rightarrow> Inr this)"

definition UnitQuaternion_of_Implementation ::
  "bool \<Rightarrow> ('a Implementation \<Rightarrow> real) \<Rightarrow> 'a Implementation \<Rightarrow> error + 'a UnitQuaternion" where
  "UnitQuaternion_of_Implementation checks nrm other =
     (let this = \<lparr>uq = Quaternion other\<rparr>
      in case assert_unit_length checks nrm this of Some e \<Rightarrow> Inl e | None \<Rightarrow> Inr this)"

text \<open>
  \<^verbatim>\<open>UnitQuaternion::operator()(const Quaternion<PrimTypeIn>&)\<close>: four writes through the
  mutable accessors, each a \<^verbatim>\<open>static_cast<PrimType>\<close> of the source's coefficient, then the
  assertion. The writes happen before the assertion, so the result is the target as
  written together with the exception thrown, if any.
\<close>

definition UnitQuaternion_call_Quaternion ::
  "bool \<Rightarrow> ('a Implementation \<Rightarrow> real) \<Rightarrow> ('b \<Rightarrow> 'a) \<Rightarrow> 'a UnitQuaternion \<Rightarrow> 'b Quaternion
     \<Rightarrow> 'a UnitQuaternion \<times> error option" where
  "UnitQuaternion_call_Quaternion checks nrm static_cast this other =
     (let i0 = toImplementation (uq this);
          i1 = i0\<lparr>qw := static_cast (Quaternion_w other)\<rparr>;
          i2 = i1\<lparr>qx := static_cast (Quaternion_x other)\<rparr>;
          i3 = i2\<lparr>qy := static_cast (Quaternion_y other)\<rparr>;
          i4 = i3\<lparr>qz := static_cast (Quaternion_z other)\<rparr>;
          this' = this\<lparr>uq := Quaternion i4\<rparr>
      in (this', assert_unit_length checks nrm this'))"

text \<open>
  \<^verbatim>\<open>Quaternion::toUnitQuaternion()\<close>: the validating constructor from an
  \<^verbatim>\<open>Implementation\<close>, applied to Eigen's \<^verbatim>\<open>normalized()\<close> of the receiver.
\<close>

definition toUnitQuaternion ::
  "bool \<Rightarrow> ('a Implementation \<Rightarrow> real) \<Rightarrow> ('a Implementation \<Rightarrow> 'a Implementation) \<Rightarrow> 'a Quaternion
     \<Rightarrow> error + 'a UnitQuaternion" where
  "toUnitQuaternion checks nrm normalized this =
     UnitQuaternion_of_Implementation checks nrm (normalized (toImplementation this))"



text \<open>
  \<^verbatim>\<open>Quaternion::operator=(const Quaternion<PrimType>&)\<close>. Its body is
  \<^verbatim>\<open>*this = other; return *this;\<close>, and the assignment in it is this same operator (the
  operators declared in \<^verbatim>\<open>Quaternion\<close> hide those of the base class). A call that does
  not return is the value \<open>None\<close>.
\<close>

partial_function (option) Quaternion_assign :: "'a Quaternion \<Rightarrow> 'a Quaternion \<Rightarrow> 'a Quaternion option" where
  "Quaternion_assign this other = Option.bind (Quaternion_assign this other) (\<lambda>this'. Some this')"

text \<open>
  \<^verbatim>\<open>Quaternion::operator=(const UnitQuaternion<PrimType>&)\<close>:
  \<^verbatim>\<open>*this = Quaternion(other.toImplementation()); return *this;\<close>.
\<close>

definition Quaternion_assign_UnitQuaternion :: "'a Quaternion \<Rightarrow> 'a UnitQuaternion \<Rightarrow> 'a Quaternion option" where
  "Quaternion_assign_UnitQuaternion this other =
     Option.bind (Quaternion_assign this (Quaternion (UnitQuaternion_toImplementation other)))
       (\<lambda>this'. Some this')"

text \<open>
  \<^verbatim>\<open>UnitQuaternion::operator=(const UnitQuaternion<PrimTypeIn>&)\<close>:
  \<^verbatim>\<open>uq = other.template cast<PrimType>(); return *this;\<close>. No header among the sources
  declares \<^verbatim>\<open>cast\<close>, so it is a parameter: it may throw, and what it returns is assigned
  to \<^verbatim>\<open>uq\<close>, a \<^verbatim>\<open>Quaternion<PrimType>\<close>, through one of the two assignment operators of
  \<^verbatim>\<open>Quaternion\<close> (\<open>Inl\<close>: it returns a \<^verbatim>\<open>Quaternion\<close>, \<open>Inr\<close>: a \<^verbatim>\<open>UnitQuaternion\<close>).
  The body holds no assertion of its own.
\<close>

definition UnitQuaternion_assign ::
  "('b UnitQuaternion \<Rightarrow> error + ('a Quaternion + 'a UnitQuaternion)) \<Rightarrow> 'a UnitQuaternion \<Rightarrow> 'b UnitQuaternion
     \<Rightarrow> (error + 'a UnitQuaternion) option" where
  "UnitQuaternion_assign cast this other =
     (case cast other of
        Inl e \<Rightarrow> Some (Inl e)
      | Inr (Inl q) \<Rightarrow>
          Option.bind (Quaternion_assign (uq this) q) (\<lambda>uq'. Some (Inr (this\<lparr>uq := uq'\<rparr>)))
      | Inr (Inr u) \<Rightarrow>
          Option.bind (Quaternion_assign_UnitQuaternion (uq this) u) (\<lambda>uq'. Some (Inr (this\<lparr>uq := uq'\<rparr>))))"

section \<open>The arithmetic against the comments of \<^verbatim>\<open>Mod\<close>\<close>

text \<open>
  The source annotates its four boundary branches with an input and the value of \<^verbatim>\<open>m\<close>
  there: \<^verbatim>\<open>Mod(-1e-16, 360.): m= 360.\<close>, \<^verbatim>\<open>Mod(106.81415022205296, 2*M_PI): m= -1.421e-14\<close>,
  \<^verbatim>\<open>Mod(1e-16, -360.): m= -360.\<close>, \<^verbatim>\<open>Mod(-106.81415022205296, -2*M_PI): m= 1.421e-14\<close>.
  The arithmetic above gives these values (\<open>2^-46\<close> is \<open>1.4210854715202004e-14\<close>).
\<close>

lemma Mod_m_comment_pos_clamp:
  "Mod_m (round_double (- (1 / 10 ^ 16))) (Fin 360) = Fin 360"
  by code_simp

lemma Mod_m_comment_pos_residual:
  "Mod_m (round_double (10681415022205296 / 10 ^ 14)) (fmul (Fin 2) M_PI) = Fin (- (1 / 2 ^ 46))"
  by code_simp

lemma Mod_m_comment_neg_clamp:
  "Mod_m (round_double (1 / 10 ^ 16)) (Fin (- 360)) = Fin (- 360)"
  by code_simp

lemma Mod_m_comment_neg_residual:
  "Mod_m (round_double (- (10681415022205296 / 10 ^ 14))) (fmul (Fin (- 2)) M_PI) = Fin (1 / 2 ^ 46)"
  by code_simp

text \<open>
  The inputs used below are \<^verbatim>\<open>double\<close>s: the literals \<^verbatim>\<open>360.0\<close>, \<^verbatim>\<open>8e18\<close> and \<^verbatim>\<open>9e18\<close>
  denote their decimal values exactly.
\<close>

lemma exact_literals:
  "round_double 360 = Fin 360 \<and> round_double (8 * 10 ^ 18) = Fin (8 * 10 ^ 18) \<and>
   round_double (9 * 10 ^ 18) = Fin (9 * 10 ^ 18)"
  by code_simp

section \<open>\<^verbatim>\<open>Mod\<close>\<close>

text \<open>
  C9: for every \<open>x\<close>, \<^verbatim>\<open>Mod(x, 0)\<close> returns \<open>x\<close> unchanged. The test \<^verbatim>\<open>y == 0.0\<close> comes
  first and returns the argument itself, whatever it is (an infinity and a NaN included):
  no arithmetic is done and nothing is asserted.
\<close>

theorem Mod_zero_modulus: "Mod x (Fin 0) = x"
  by (simp add: Mod_def)

text \<open>
  C8: on the two inputs the spec names, the boundary branches give the results it
  names. \<^verbatim>\<open>Mod(-1e-16, 360.0)\<close> is exactly \<open>0\<close> (\<^verbatim>\<open>m\<close> is \<open>360\<close>, so the branch
  \<^verbatim>\<open>m >= y\<close> returns \<open>0\<close>), and \<^verbatim>\<open>Mod(106.81415022205296, 2*M_PI)\<close> is
  \<open>6.283185307179572\<close>, a value of \<open>[0, 2*M_PI)\<close> (\<^verbatim>\<open>m\<close> is \<open>-2^-46\<close>, and the branch
  \<^verbatim>\<open>m < 0\<close> returns \<^verbatim>\<open>y + m\<close>).
\<close>

theorem Mod_named_boundary_inputs:
  "Mod (round_double (- (1 / 10 ^ 16))) (Fin 360) = Fin 0 \<and>
   Mod (round_double (10681415022205296 / 10 ^ 14)) (fmul (Fin 2) M_PI)
     = Fin (884279719003553 / 140737488355328) \<and>
   in_co (Fin 0) (fmul (Fin 2) M_PI)
     (Mod (round_double (10681415022205296 / 10 ^ 14)) (fmul (Fin 2) M_PI))"
  by code_simp

text \<open>
  C2 (the claim: for finite \<open>x\<close> and finite \<open>y > 0\<close> the result is in \<open>[0, y)\<close>, for
  finite \<open>y < 0\<close> in \<open>(y, 0]\<close>). It fails at \<^verbatim>\<open>Mod(8e18, 360.0)\<close>: \<^verbatim>\<open>x/y\<close> rounds to
  \<open>22222222222222224\<close>, \<^verbatim>\<open>y * floor(x/y)\<close> is \<open>8000000000000000640\<close> exactly and rounds
  to \<open>8e18 + 1024\<close>, so \<^verbatim>\<open>m\<close> is \<open>-1024\<close> and the branch \<^verbatim>\<open>m < 0\<close> returns \<^verbatim>\<open>y + m\<close>,
  which is \<open>-664\<close>; symmetrically \<^verbatim>\<open>Mod(-8e18, -360.0)\<close> is \<open>664\<close>. The corrections of
  \<^verbatim>\<open>Mod\<close> repair a residual that is off by less than one \<open>y\<close>; where the spacing of the
  \<^verbatim>\<open>double\<close>s around \<open>x\<close> exceeds \<open>y\<close>, the residual is off by more.
\<close>

theorem Mod_leaves_range:
  "Mod (Fin (8 * 10 ^ 18)) (Fin 360) = Fin (- 664) \<and>
   \<not> in_co (Fin 0) (Fin 360) (Mod (Fin (8 * 10 ^ 18)) (Fin 360)) \<and>
   Mod (Fin (- (8 * 10 ^ 18))) (Fin (- 360)) = Fin 664 \<and>
   \<not> in_oc (Fin (- 360)) (Fin 0) (Mod (Fin (- (8 * 10 ^ 18))) (Fin (- 360)))"
  by code_simp

text \<open>
  C7 (the claim: for every finite angle \<^verbatim>\<open>wrapTwoPI\<close> is in \<open>[0, 2\<pi>)\<close> and
  \<^verbatim>\<open>wrapPosNegPI\<close> is in \<open>[-\<pi>, \<pi>)\<close>). Both fail at the angle \<^verbatim>\<open>9e18\<close>, by the
  behaviour of \<^verbatim>\<open>Mod\<close> shown for C2: \<^verbatim>\<open>wrapTwoPI(9e18)\<close> is \<open>-1017.7168146928204\<close> and
  \<^verbatim>\<open>wrapPosNegPI(9e18)\<close> is \<open>-1020.8584073464102\<close>.
\<close>

theorem wraps_leave_range:
  "wrapTwoPI (Fin (9 * 10 ^ 18)) = Fin (- (4475965886151635 / 4398046511104)) \<and>
   \<not> in_co (Fin 0) (fmul (Fin 2) M_PI) (wrapTwoPI (Fin (9 * 10 ^ 18))) \<and>
   wrapPosNegPI (Fin (9 * 10 ^ 18)) = Fin (- (8979565513522131 / 8796093022208)) \<and>
   \<not> in_co (fneg M_PI) M_PI (wrapPosNegPI (Fin (9 * 10 ^ 18)))"
  by code_simp

section \<open>The assignment operators\<close>

text \<open>
  \<^verbatim>\<open>Quaternion::operator=\<close> calls itself before it does anything else, so no call of
  it returns.
\<close>

lemma Quaternion_assign_never: "Quaternion_assign this other \<noteq> Some r"
proof
  assume a: "Quaternion_assign this other = Some r"
  show False
  proof (rule Quaternion_assign.raw_induct [where P = "\<lambda>_ _ _. False", OF _ a])
    fix f :: "'a Quaternion \<Rightarrow> 'a Quaternion \<Rightarrow> 'a Quaternion option" and t o' y
    assume "\<And>t o' y. f t o' = Some y \<Longrightarrow> False" and "Option.bind (f t o') Some = Some y"
    then show False by (cases "f t o'") auto
  qed
qed

lemma Quaternion_assign_None: "Quaternion_assign this other = None"
  using Quaternion_assign_never [of this other] by (cases "Quaternion_assign this other") auto

text \<open>
  C5 (the claim: assigning a \<^verbatim>\<open>Quaternion\<close> or a \<^verbatim>\<open>UnitQuaternion\<close> of the same precision
  to a \<^verbatim>\<open>Quaternion\<close> terminates and leaves the target's coefficients equal to the
  source's). Neither operator returns: \<^verbatim>\<open>operator=(const Quaternion&)\<close> is
  \<^verbatim>\<open>*this = other\<close>, a call of itself, and \<^verbatim>\<open>operator=(const UnitQuaternion&)\<close> calls it.
\<close>

theorem Quaternion_assign_diverges:
  "Quaternion_assign this other = None \<and> Quaternion_assign_UnitQuaternion this u = None"
  by (simp add: Quaternion_assign_None Quaternion_assign_UnitQuaternion_def)

text \<open>
  C4 (the claim: \<^verbatim>\<open>operator=\<close> from a \<^verbatim>\<open>UnitQuaternion\<close> of another precision re-derives
  the coefficients, re-checks the norm and leaves the target of unit norm). Whatever
  \<^verbatim>\<open>cast\<close> is, the operator either passes on the exception \<^verbatim>\<open>cast\<close> throws or does not
  return: its store into \<^verbatim>\<open>uq\<close> is an assignment to a \<^verbatim>\<open>Quaternion\<close>. It never returns
  with the target assigned.
\<close>

theorem UnitQuaternion_assign_never_completes:
  "UnitQuaternion_assign cast this other = (case cast other of Inl e \<Rightarrow> Some (Inl e) | Inr c \<Rightarrow> None)"
  by (simp add: UnitQuaternion_assign_def Quaternion_assign_None Quaternion_assign_UnitQuaternion_def
      split: sum.splits)

section \<open>The validating paths of \<^verbatim>\<open>UnitQuaternion\<close>\<close>

lemma euclidean_norm_axis: "euclidean_norm \<lparr>qw = a, qx = 0, qy = 0, qz = 0\<rparr> = \<bar>a\<bar>"
  by (simp add: euclidean_norm_def)

text \<open>
  C1: with the checks enabled, each of the three validating constructors succeeds on
  coefficients whose norm (the value \<^verbatim>\<open>norm()\<close> returns) is within \<open>1e-6\<close> of \<open>1\<close>, and
  throws the invariant-violation error on coefficients of norm \<open>2\<close>.
\<close>

theorem UnitQuaternion_ctor_asserts:
  "(\<bar>nrm \<lparr>qw = w, qx = x, qy = y, qz = z\<rparr> - 1\<bar> \<le> 1 / 10 ^ 6 \<longrightarrow>
      UnitQuaternion_of_coeffs True nrm w x y z = Inr \<lparr>uq = Quaternion_coeffs w x y z\<rparr> \<and>
      UnitQuaternion_of_Quaternion True nrm (Quaternion_coeffs w x y z)
        = Inr \<lparr>uq = Quaternion_coeffs w x y z\<rparr> \<and>
      UnitQuaternion_of_Implementation True nrm \<lparr>qw = w, qx = x, qy = y, qz = z\<rparr>
        = Inr \<lparr>uq = Quaternion_coeffs w x y z\<rparr>) \<and>
   (nrm \<lparr>qw = w, qx = x, qy = y, qz = z\<rparr> = 2 \<longrightarrow>
      UnitQuaternion_of_coeffs True nrm w x y z
        = Inl (runtime_error ''Input quaternion has not unit length.'') \<and>
      UnitQuaternion_of_Quaternion True nrm (Quaternion_coeffs w x y z)
        = Inl (runtime_error ''Input quaternion has not unit length.'') \<and>
      UnitQuaternion_of_Implementation True nrm \<lparr>qw = w, qx = x, qy = y, qz = z\<rparr>
        = Inl (runtime_error ''Input quaternion has not unit length.''))"
  by (simp add: UnitQuaternion_of_coeffs_def UnitQuaternion_of_Quaternion_def
      UnitQuaternion_of_Implementation_def assert_unit_length_def RM_ASSERT_SCALAR_NEAR_DBG_def
      UnitQuaternion_norm_def Quaternion_norm_def Quaternion_coeffs_def)

text \<open>
  Witness of C1, with the Euclidean norm for \<^verbatim>\<open>norm()\<close>: \<open>(1,0,0,0)\<close> has norm \<open>1\<close> and is
  constructed, \<open>(2,0,0,0)\<close> has norm \<open>2\<close> and is refused.
\<close>

theorem UnitQuaternion_ctor_asserts_witness:
  "\<bar>euclidean_norm \<lparr>qw = 1, qx = 0, qy = 0, qz = 0\<rparr> - 1\<bar> \<le> 1 / 10 ^ 6 \<and>
   UnitQuaternion_of_coeffs True euclidean_norm 1 0 0 0 = Inr \<lparr>uq = Quaternion_coeffs 1 0 0 0\<rparr> \<and>
   euclidean_norm \<lparr>qw = 2, qx = 0, qy = 0, qz = 0\<rparr> = 2 \<and>
   UnitQuaternion_of_coeffs True euclidean_norm 2 0 0 0
     = Inl (runtime_error ''Input quaternion has not unit length.'')"
  using UnitQuaternion_ctor_asserts [of euclidean_norm 1 0 0 0]
    UnitQuaternion_ctor_asserts [of euclidean_norm 2 0 0 0]
  by (simp add: euclidean_norm_axis)

text \<open>
  C10: every validating constructor (from four coefficients, from a \<^verbatim>\<open>Quaternion\<close>, from
  an \<^verbatim>\<open>Implementation\<close>) stores the coefficients it is given, each exactly. There is an
  object whose \<open>w\<close>, \<open>x\<close>, \<open>y\<close>, \<open>z\<close> are the inputs and whose norm is the norm of the
  inputs (nothing is renormalised), and the constructor returns this object unless the
  assertion fires, which it does exactly when the checks are enabled and the norm is not
  within \<open>1e-6\<close> of \<open>1\<close>. So a stored norm may be any value within the tolerance of \<open>1\<close>.
\<close>

theorem UnitQuaternion_ctor_stores:
  "(\<exists>u. UnitQuaternion_of_coeffs checks nrm w x y z =
          (if checks \<and> \<not> \<bar>nrm \<lparr>qw = w, qx = x, qy = y, qz = z\<rparr> - 1\<bar> \<le> 1 / 10 ^ 6
           then Inl (runtime_error ''Input quaternion has not unit length.'') else Inr u) \<and>
        UnitQuaternion_w u = w \<and> UnitQuaternion_x u = x \<and>
        UnitQuaternion_y u = y \<and> UnitQuaternion_z u = z \<and>
        UnitQuaternion_norm nrm u = nrm \<lparr>qw = w, qx = x, qy = y, qz = z\<rparr>) \<and>
   (\<exists>u. UnitQuaternion_of_Quaternion checks nrm q =
          (if checks \<and> \<not> \<bar>Quaternion_norm nrm q - 1\<bar> \<le> 1 / 10 ^ 6
           then Inl (runtime_error ''Input quaternion has not unit length.'') else Inr u) \<and>
        UnitQuaternion_w u = Quaternion_w q \<and> UnitQuaternion_x u = Quaternion_x q \<and>
        UnitQuaternion_y u = Quaternion_y q \<and> UnitQuaternion_z u = Quaternion_z q \<and>
        UnitQuaternion_norm nrm u = Quaternion_norm nrm q) \<and>
   (\<exists>u. UnitQuaternion_of_Implementation checks nrm i =
          (if checks \<and> \<not> \<bar>nrm i - 1\<bar> \<le> 1 / 10 ^ 6
           then Inl (runtime_error ''Input quaternion has not unit length.'') else Inr u) \<and>
        UnitQuaternion_w u = qw i \<and> UnitQuaternion_x u = qx i \<and>
        UnitQuaternion_y u = qy i \<and> UnitQuaternion_z u = qz i \<and>
        UnitQuaternion_norm nrm u = nrm i)"
proof (intro conjI)
  show "\<exists>u. UnitQuaternion_of_coeffs checks nrm w x y z =
          (if checks \<and> \<not> \<bar>nrm \<lparr>qw = w, qx = x, qy = y, qz = z\<rparr> - 1\<bar> \<le> 1 / 10 ^ 6
           then Inl (runtime_error ''Input quaternion has not unit length.'') else Inr u) \<and>
        UnitQuaternion_w u = w \<and> UnitQuaternion_x u = x \<and>
        UnitQuaternion_y u = y \<and> UnitQuaternion_z u = z \<and>
        UnitQuaternion_norm nrm u = nrm \<lparr>qw = w, qx = x, qy = y, qz = z\<rparr>"
    by (rule exI [of _ "\<lparr>uq = Quaternion_coeffs w x y z\<rparr>"])
      (simp add: UnitQuaternion_of_coeffs_def Quaternion_coeffs_def assert_unit_length_def
        RM_ASSERT_SCALAR_NEAR_DBG_def UnitQuaternion_norm_def Quaternion_norm_def
        UnitQuaternion_w_def UnitQuaternion_x_def UnitQuaternion_y_def UnitQuaternion_z_def
        Quaternion_w_def Quaternion_x_def Quaternion_y_def Quaternion_z_def)
  show "\<exists>u. UnitQuaternion_of_Quaternion checks nrm q =
          (if checks \<and> \<not> \<bar>Quaternion_norm nrm q - 1\<bar> \<le> 1 / 10 ^ 6
           then Inl (runtime_error ''Input quaternion has not unit length.'') else Inr u) \<and>
        UnitQuaternion_w u = Quaternion_w q \<and> UnitQuaternion_x u = Quaternion_x q \<and>
        UnitQuaternion_y u = Quaternion_y q \<and> UnitQuaternion_z u = Quaternion_z q \<and>
        UnitQuaternion_norm nrm u = Quaternion_norm nrm q"
    by (rule exI [of _ "\<lparr>uq = Quaternion (toImplementation q)\<rparr>"])
      (simp add: UnitQuaternion_of_Quaternion_def assert_unit_length_def
        RM_ASSERT_SCALAR_NEAR_DBG_def UnitQuaternion_norm_def Quaternion_norm_def
        UnitQuaternion_w_def UnitQuaternion_x_def UnitQuaternion_y_def UnitQuaternion_z_def
        Quaternion_w_def Quaternion_x_def Quaternion_y_def Quaternion_z_def)
  show "\<exists>u. UnitQuaternion_of_Implementation checks nrm i =
          (if checks \<and> \<not> \<bar>nrm i - 1\<bar> \<le> 1 / 10 ^ 6
           then Inl (runtime_error ''Input quaternion has not unit length.'') else Inr u) \<and>
        UnitQuaternion_w u = qw i \<and> UnitQuaternion_x u = qx i \<and>
        UnitQuaternion_y u = qy i \<and> UnitQuaternion_z u = qz i \<and>
        UnitQuaternion_norm nrm u = nrm i"
    by (rule exI [of _ "\<lparr>uq = Quaternion i\<rparr>"])
      (simp add: UnitQuaternion_of_Implementation_def assert_unit_length_def
        RM_ASSERT_SCALAR_NEAR_DBG_def UnitQuaternion_norm_def Quaternion_norm_def
        UnitQuaternion_w_def UnitQuaternion_x_def UnitQuaternion_y_def UnitQuaternion_z_def
        Quaternion_w_def Quaternion_x_def Quaternion_y_def Quaternion_z_def)
qed

text \<open>
  Witness of C10, with the Euclidean norm for \<^verbatim>\<open>norm()\<close> and the checks enabled: each
  of the three constructors accepts the coefficients \<open>(1.0000005, 0, 0, 0)\<close> and stores
  them as given, and the stored norm is \<open>1.0000005\<close>, not \<open>1\<close>.
\<close>

theorem UnitQuaternion_ctor_stores_witness:
  "(\<exists>u. UnitQuaternion_of_coeffs True euclidean_norm (1 + 5 / 10 ^ 7) 0 0 0 = Inr u \<and>
        UnitQuaternion_w u = 1 + 5 / 10 ^ 7 \<and> UnitQuaternion_x u = 0 \<and>
        UnitQuaternion_y u = 0 \<and> UnitQuaternion_z u = 0 \<and>
        UnitQuaternion_norm euclidean_norm u = 1 + 5 / 10 ^ 7) \<and>
   (\<exists>u. UnitQuaternion_of_Quaternion True euclidean_norm (Quaternion_coeffs (1 + 5 / 10 ^ 7) 0 0 0) = Inr u \<and>
        UnitQuaternion_w u = 1 + 5 / 10 ^ 7 \<and> UnitQuaternion_x u = 0 \<and>
        UnitQuaternion_y u = 0 \<and> UnitQuaternion_z u = 0 \<and>
        UnitQuaternion_norm euclidean_norm u = 1 + 5 / 10 ^ 7) \<and>
   (\<exists>u. UnitQuaternion_of_Implementation True euclidean_norm
          \<lparr>qw = 1 + 5 / 10 ^ 7, qx = 0, qy = 0, qz = 0\<rparr> = Inr u \<and>
        UnitQuaternion_w u = 1 + 5 / 10 ^ 7 \<and> UnitQuaternion_x u = 0 \<and>
        UnitQuaternion_y u = 0 \<and> UnitQuaternion_z u = 0 \<and>
        UnitQuaternion_norm euclidean_norm u = 1 + 5 / 10 ^ 7)"
  using UnitQuaternion_ctor_stores [of True euclidean_norm "1 + 5 / 10 ^ 7" 0 0 0
      "Quaternion_coeffs (1 + 5 / 10 ^ 7) 0 0 0" "\<lparr>qw = 1 + 5 / 10 ^ 7, qx = 0, qy = 0, qz = 0\<rparr>"]
  by (simp add: euclidean_norm_axis Quaternion_norm_def Quaternion_coeffs_def
      Quaternion_w_def Quaternion_x_def Quaternion_y_def Quaternion_z_def)

text \<open>
  With the checks disabled no constructor asserts: whatever the norm, the object is
  constructed.
\<close>

lemma UnitQuaternion_ctor_unchecked:
  "UnitQuaternion_of_coeffs False nrm w x y z = Inr \<lparr>uq = Quaternion_coeffs w x y z\<rparr> \<and>
   UnitQuaternion_of_Quaternion False nrm q = Inr \<lparr>uq = Quaternion (toImplementation q)\<rparr> \<and>
   UnitQuaternion_of_Implementation False nrm i = Inr \<lparr>uq = Quaternion i\<rparr>"
  by (simp add: UnitQuaternion_of_coeffs_def UnitQuaternion_of_Quaternion_def
      UnitQuaternion_of_Implementation_def assert_unit_length_def RM_ASSERT_SCALAR_NEAR_DBG_def)

text \<open>
  \<^verbatim>\<open>toUnitQuaternion()\<close> validates what Eigen's \<^verbatim>\<open>normalized()\<close> returns: whether it throws
  is decided by Eigen's \<^verbatim>\<open>norm()\<close> of that value, that is, by the rounding of the
  library's arithmetic.
\<close>

lemma toUnitQuaternion_validates:
  "toUnitQuaternion checks nrm normalized q =
     (let i = normalized (toImplementation q)
      in if checks \<and> \<not> \<bar>nrm i - 1\<bar> \<le> 1 / 10 ^ 6
         then Inl (runtime_error ''Input quaternion has not unit length.'')
         else Inr \<lparr>uq = Quaternion i\<rparr>)"
  by (simp add: toUnitQuaternion_def UnitQuaternion_of_Implementation_def assert_unit_length_def
      RM_ASSERT_SCALAR_NEAR_DBG_def UnitQuaternion_norm_def Quaternion_norm_def Let_def)





text \<open>
  C3 (the claim: \<^verbatim>\<open>operator()\<close> taking a raw \<^verbatim>\<open>Quaternion\<close> performs no norm check, so no
  assertion can fire on this path). As stated it fails: with the checks enabled and the
  Euclidean norm for \<^verbatim>\<open>norm()\<close>, calling the operator on the identity with the source
  \<open>(2,0,0,0)\<close> of the same scalar type throws the invariant-violation error.
\<close>

theorem UnitQuaternion_call_Quaternion_fires:
  "snd (UnitQuaternion_call_Quaternion True euclidean_norm id \<lparr>uq = Quaternion_coeffs 1 0 0 0\<rparr>
          (Quaternion_coeffs 2 0 0 0))
     = Some (runtime_error ''Input quaternion has not unit length.'')"
  by (simp add: UnitQuaternion_call_Quaternion_def assert_unit_length_def RM_ASSERT_SCALAR_NEAR_DBG_def
      UnitQuaternion_norm_def Quaternion_norm_def Quaternion_coeffs_def euclidean_norm_axis
      Quaternion_w_def Quaternion_x_def Quaternion_y_def Quaternion_z_def)

text \<open>
  C3 as amended: \<^verbatim>\<open>operator()\<close> taking a raw \<^verbatim>\<open>Quaternion\<close> writes the four coefficients
  of the source, each cast to the target's scalar type, into the target, and then
  asserts that the norm of the target is within \<open>1e-6\<close> of \<open>1\<close>. With the checks
  enabled the invariant-violation error is thrown when it is not (the coefficients are
  written by then); with the checks disabled nothing is checked, and the target may
  hold a value that is not of unit norm.
\<close>

theorem UnitQuaternion_call_Quaternion_checks:
  "UnitQuaternion_call_Quaternion checks nrm static_cast this other =
     (let i = \<lparr>qw = static_cast (Quaternion_w other), qx = static_cast (Quaternion_x other),
               qy = static_cast (Quaternion_y other), qz = static_cast (Quaternion_z other)\<rparr>
      in (\<lparr>uq = Quaternion i\<rparr>,
          if checks \<and> \<not> \<bar>nrm i - 1\<bar> \<le> 1 / 10 ^ 6
          then Some (runtime_error ''Input quaternion has not unit length.'') else None))"
proof -
  obtain i0 where u: "this = \<lparr>uq = Quaternion i0\<rparr>"
    by (cases this, cases "uq this") auto
  obtain a b c d where i: "i0 = \<lparr>qw = a, qx = b, qy = c, qz = d\<rparr>"
    by (cases i0) auto
  show ?thesis
    unfolding u i
    by (simp add: UnitQuaternion_call_Quaternion_def assert_unit_length_def
        RM_ASSERT_SCALAR_NEAR_DBG_def UnitQuaternion_norm_def Quaternion_norm_def Let_def)
qed

end
